theory Spec2Isabelle
  imports Complex_Main "HOL-Library.Log_Nat"
begin

section \<open>JavaScript numbers and 32-bit floats\<close>

text \<open>
  A finite binary floating-point number is the rational it denotes. \<open>round_binary prec emin\<close>
  rounds a rational to the nearest number with \<open>prec\<close> significant bits and least normal
  exponent \<open>emin\<close>, a tie going to the even significand, as IEEE 754 arithmetic does after
  every operation. \<open>exponent r\<close> is the integer \<open>e\<close> with \<open>2 powi e \<le> \<bar>r\<bar>\<close> and
  \<open>\<bar>r\<bar> < 2 powi (e + 1)\<close>. The function does not know the largest exponent of the format:
  where the format overflows, it returns the rounded rational.
\<close>

definition round_ties_even :: "rat \<Rightarrow> int" where
  "round_ties_even t =
     (let f = \<lfloor>t\<rfloor>; d = t - of_int f
      in if d < 1 / 2 then f else if 1 / 2 < d then f + 1 else if even f then f else f + 1)"

definition exponent :: "rat \<Rightarrow> int" where
  "exponent r =
     (if 1 \<le> \<bar>r\<bar> then bitlen \<lfloor>\<bar>r\<bar>\<rfloor> - 1 else - bitlen (\<lceil>1 / \<bar>r\<bar>\<rceil> - 1))"

definition round_binary :: "int \<Rightarrow> int \<Rightarrow> rat \<Rightarrow> rat" where
  "round_binary prec emin r =
     (if r = 0 then 0
      else let ulp = 2 powi (max (exponent r) emin - (prec - 1))
           in of_int (round_ties_even (r / ulp)) * ulp)"

text \<open>
  A JavaScript number is a double (53 significant bits). \<open>double\<close> is the rounding of the
  result of an operation on doubles, for results within the range of the doubles (below
  \<open>2 ^ 1024\<close> in magnitude); \<open>Infinity\<close> and \<open>NaN\<close> are not represented.
\<close>

definition double :: "rat \<Rightarrow> rat" where
  "double r = round_binary 53 (- 1022) r"

text \<open>
  An element of a \<open>Float32Array\<close> holds the number stored into it rounded to a 32-bit float
  (24 significant bits), which is infinite from \<open>2 ^ 128\<close> on.
\<close>

datatype float32 = Finite rat | Infinity | NegInfinity

definition fround :: "rat \<Rightarrow> float32" where
  "fround r =
     (let q = round_binary 24 (- 126) r
      in if 2 ^ 128 \<le> q then Infinity else if q \<le> - (2 ^ 128) then NegInfinity
         else Finite q)"

section \<open>The voxel store (src/VoxelStore.js)\<close>

text \<open>
  A voxel is a plain JavaScript object. The store itself only ever builds objects with the
  keys \<open>x\<close>, \<open>y\<close>, \<open>z\<close> and \<open>color\<close>; a row delivered by the realtime channel may carry
  further columns, of which the interaction code reads \<open>id\<close>. A key that is missing
  (\<open>undefined\<close>) or \<open>null\<close> is \<open>None\<close>. The record fields carry the prefix \<open>vox_\<close>
  because \<open>x\<close>, \<open>y\<close>, \<open>z\<close> and \<open>id\<close> would otherwise shadow variables and the identity
  function.
\<close>

datatype ident = IdNum int | IdStr string

record voxel =
  vox_x :: int
  vox_y :: int
  vox_z :: int
  vox_color :: "string option"
  vox_id :: "ident option"

text \<open>The state held by the zustand store: \<open>voxels: []\<close>, \<open>selectedColor: '#00ffff'\<close>.\<close>

record store =
  voxels :: "voxel list"
  selectedColor :: string

definition initial_store :: store where
  "initial_store = \<lparr>voxels = [], selectedColor = ''#00ffff''\<rparr>"

definition setSelectedColor :: "string \<Rightarrow> store \<Rightarrow> store" where
  "setSelectedColor c s = s\<lparr>selectedColor := c\<rparr>"

text \<open>What \<open>console.error(label, error)\<close> writes.\<close>

datatype log_entry = ConsoleError string string

text \<open>
  \<open>initializeVoxels\<close>: the query is \<open>select('x, y, z, color')\<close>, so a returned row has
  exactly these four columns. The answer of the external store is the pair
  \<open>data\<close>, \<open>error\<close>; on an error the store is left as it is and the error is logged,
  otherwise \<open>voxels\<close> is replaced by \<open>data || []\<close>.
\<close>

record row =
  row_x :: int
  row_y :: int
  row_z :: int
  row_color :: "string option"

definition voxel_of_row :: "row \<Rightarrow> voxel" where
  "voxel_of_row r =
     \<lparr>vox_x = row_x r, vox_y = row_y r, vox_z = row_z r, vox_color = row_color r,
      vox_id = None\<rparr>"

definition initializeVoxels ::
  "row list option \<Rightarrow> string option \<Rightarrow> store \<Rightarrow> store \<times> log_entry list" where
  "initializeVoxels data error s =
     (case error of
        Some e \<Rightarrow> (s, [ConsoleError ''Error fetching voxels:'' e])
      | None \<Rightarrow>
          (s\<lparr>voxels := (case data of None \<Rightarrow> [] | Some rows \<Rightarrow> map voxel_of_row rows)\<rparr>, []))"

text \<open>
  \<open>addVoxel\<close> is asynchronous. Up to its \<open>await\<close> it runs in one piece: it reads
  \<open>selectedColor\<close>, builds \<open>{x, y, z, color}\<close>, appends it to \<open>voxels\<close> and hands the
  same object to the external store (the second component below). The rest runs when the
  external store has answered, on whatever the store state is by then, and only logs.
\<close>

definition addVoxel_begin :: "int \<Rightarrow> int \<Rightarrow> int \<Rightarrow> store \<Rightarrow> store \<times> voxel" where
  "addVoxel_begin a b c s =
     (let newVoxel = \<lparr>vox_x = a, vox_y = b, vox_z = c, vox_color = Some (selectedColor s),
                      vox_id = None\<rparr>
      in (s\<lparr>voxels := voxels s @ [newVoxel]\<rparr>, newVoxel))"

definition addVoxel_resume :: "string option \<Rightarrow> store \<Rightarrow> store \<times> log_entry list" where
  "addVoxel_resume error s =
     (case error of
        Some e \<Rightarrow> (s, [ConsoleError ''Error saving voxel:'' e])
      | None \<Rightarrow> (s, []))"

definition addVoxel ::
  "int \<Rightarrow> int \<Rightarrow> int \<Rightarrow> string option \<Rightarrow> store \<Rightarrow> store \<times> log_entry list" where
  "addVoxel a b c error s = addVoxel_resume error (fst (addVoxel_begin a b c s))"

text \<open>
  The callback that \<open>subscribeToVoxels\<close> registers for INSERT notifications;
  \<open>newVoxel\<close> is \<open>payload.new\<close>.
\<close>

definition same_cell :: "voxel \<Rightarrow> voxel \<Rightarrow> bool" where
  "same_cell newVoxel v \<longleftrightarrow>
     vox_x v = vox_x newVoxel \<and> vox_y v = vox_y newVoxel \<and> vox_z v = vox_z newVoxel"

definition onInsert :: "voxel \<Rightarrow> store \<Rightarrow> store" where
  "onInsert newVoxel s =
     (let currentVoxels = voxels s;
          exists = list_ex (same_cell newVoxel) currentVoxels
      in if \<not> exists then s\<lparr>voxels := voxels s @ [newVoxel]\<rparr> else s)"

text \<open>
  The object passed to \<open>create\<close> has the keys \<open>voxels\<close>, \<open>selectedColor\<close>,
  \<open>setSelectedColor\<close>, \<open>initializeVoxels\<close>, \<open>addVoxel\<close> and \<open>subscribeToVoxels\<close> and no
  other. The selector \<open>state.removeVoxel\<close> of the interaction code therefore yields
  \<open>undefined\<close>.
\<close>

definition removeVoxel :: "(ident option \<Rightarrow> store \<Rightarrow> store) option" where
  "removeVoxel = None"

text \<open>The position of a voxel, and the grid invariant of no two voxels in one cell.\<close>

definition position :: "voxel \<Rightarrow> int \<times> int \<times> int" where
  "position v = (vox_x v, vox_y v, vox_z v)"

definition unique_positions :: "voxel list \<Rightarrow> bool" where
  "unique_positions vs \<longleftrightarrow> distinct (map position vs)"

section \<open>The instance projection (VoxelInstances)\<close>

definition MAX_INSTANCES :: nat where
  "MAX_INSTANCES = 100000"

text \<open>
  The colour helper is one \<open>THREE.Color\<close> object, created once and shared by all runs of
  the effect and all voxels. The class is not part of the repository; the state of the
  object is represented by what has been done to it: \<open>new THREE.Color()\<close>, and then
  \<open>set(style)\<close> with a string. \<open>Color_value parse white c\<close> is the colour that the object
  then holds, for the library's parser of colour strings \<open>parse\<close> and the colour \<open>white\<close>
  of a new object: \<open>set\<close> with a string that does not parse leaves the object as it was.
  Read with \<open>parse\<close> and \<open>white\<close> as the colours that a slot of the colour buffer holds
  once they are copied into it, it is the colour in a slot that received a copy of \<open>c\<close>.
\<close>

datatype Color = Color_new | Color_set string Color

fun Color_value :: "(string \<Rightarrow> 'c option) \<Rightarrow> 'c \<Rightarrow> Color \<Rightarrow> 'c" where
  "Color_value parse white Color_new = white"
| "Color_value parse white (Color_set style c) =
     (case parse style of Some v \<Rightarrow> v | None \<Rightarrow> Color_value parse white c)"

text \<open>
  The instanced mesh as far as the effect touches it: the exposed \<open>count\<close>, and the two
  per-instance buffers. Both buffers are \<open>Float32Array\<close>s allocated for \<open>MAX_INSTANCES\<close>
  instances; a store into a typed array beyond its length is dropped without an error,
  which is what \<open>setMatrixAt\<close> and \<open>setColorAt\<close> do at an index from \<open>MAX_INSTANCES\<close> on.
  A matrix is its 16 entries in column-major order, each rounded to a 32-bit float when it
  is stored; a colour slot holds a copy of what the colour object held at the call.
\<close>

record mesh =
  count :: nat
  instanceMatrix :: "nat \<rightharpoonup> float32 list"
  instanceColor :: "nat \<rightharpoonup> Color"

definition setMatrixAt :: "nat \<Rightarrow> rat list \<Rightarrow> mesh \<Rightarrow> mesh" where
  "setMatrixAt i mat m =
     (if i < MAX_INSTANCES
      then m\<lparr>instanceMatrix := (instanceMatrix m)(i \<mapsto> map fround mat)\<rparr> else m)"

definition setColorAt :: "nat \<Rightarrow> Color \<Rightarrow> mesh \<Rightarrow> mesh" where
  "setColorAt i c m =
     (if i < MAX_INSTANCES then m\<lparr>instanceColor := (instanceColor m)(i \<mapsto> c)\<rparr> else m)"

text \<open>
  \<open>dummy.position.set(x, y, z); dummy.updateMatrix()\<close> on an object whose rotation and
  scale are never touched: the matrix of the translation to \<open>(x, y, z)\<close>.
\<close>

definition translation :: "int \<Rightarrow> int \<Rightarrow> int \<Rightarrow> rat list" where
  "translation a b c =
     [1, 0, 0, 0,  0, 1, 0, 0,  0, 0, 1, 0,  of_int a, of_int b, of_int c, 1]"

definition dummy_matrix :: "voxel \<Rightarrow> rat list" where
  "dummy_matrix v = translation (vox_x v) (vox_y v) (vox_z v)"

text \<open>\<open>voxel.color || '#00d2ff'\<close>: a missing colour and the empty string are falsy.\<close>

definition color_or_default :: "string option \<Rightarrow> string" where
  "color_or_default c =
     (case c of None \<Rightarrow> ''#00d2ff'' | Some t \<Rightarrow> if t = [] then ''#00d2ff'' else t)"

text \<open>
  \<open>voxels.forEach((voxel, i) => ...)\<close>, from index \<open>i\<close> on; the state is the mesh and the
  colour helper. \<open>colorHelper.set(...)\<close> changes the helper and returns it.
\<close>

fun forEach_voxel :: "nat \<Rightarrow> voxel list \<Rightarrow> mesh \<times> Color \<Rightarrow> mesh \<times> Color" where
  "forEach_voxel i [] (m, colorHelper) = (m, colorHelper)"
| "forEach_voxel i (v # vs) (m, colorHelper) =
     (let c = Color_set (color_or_default (vox_color v)) colorHelper
      in forEach_voxel (Suc i) vs (setColorAt i c (setMatrixAt i (dummy_matrix v) m), c))"

text \<open>The colour helper after the loop has passed the voxels \<open>vs\<close>.\<close>

fun colorHelper_after :: "voxel list \<Rightarrow> Color \<Rightarrow> Color" where
  "colorHelper_after [] colorHelper = colorHelper"
| "colorHelper_after (v # vs) colorHelper =
     colorHelper_after vs (Color_set (color_or_default (vox_color v)) colorHelper)"

datatype js_error = TypeError

text \<open>
  The body of the effect, on the snapshot, the colour helper and the mesh reference. With
  no mesh mounted (\<open>!meshRef.current\<close>) it returns at once. Nothing in it throws; the
  result type says so by never being \<open>Inl\<close>.
\<close>

definition project :: "voxel list \<Rightarrow> Color \<Rightarrow> mesh \<Rightarrow> mesh \<times> Color" where
  "project vs colorHelper m = forEach_voxel 0 vs (m\<lparr>count := length vs\<rparr>, colorHelper)"

definition VoxelInstances_effect ::
  "voxel list \<Rightarrow> Color \<Rightarrow> mesh option \<Rightarrow> js_error + (mesh option \<times> Color)" where
  "VoxelInstances_effect vs colorHelper meshRef =
     (case meshRef of
        None \<Rightarrow> Inr (None, colorHelper)
      | Some m \<Rightarrow> Inr (Some (fst (project vs colorHelper m)), snd (project vs colorHelper m)))"

text \<open>A mesh none of whose slots has been written.\<close>

definition blank_mesh :: mesh where
  "blank_mesh = \<lparr>count = MAX_INSTANCES, instanceMatrix = Map.empty, instanceColor = Map.empty\<rparr>"

section \<open>The raycast interaction (Interaction)\<close>

text \<open>
  The coordinates of points and normals are doubles. \<open>Math.round\<close> of a double is the
  floor of \<open>x + 1/2\<close> taken exactly (a tie goes up).
\<close>

record vec3 =
  v3_x :: rat
  v3_y :: rat
  v3_z :: rat

definition Math_round :: "rat \<Rightarrow> int" where
  "Math_round r = \<lfloor>r + 1 / 2\<rfloor>"

record cell =
  cell_x :: int
  cell_y :: int
  cell_z :: int

text \<open>The first intersection as the code reads it.\<close>

record hit =
  object_name :: string
  instanceId :: "nat option"
  point :: vec3
  face_normal :: vec3

text \<open>
  \<open>hit.point.clone().add(hit.face.normal.clone().multiplyScalar(0.5))\<close>, then
  \<open>Math.round\<close> on each axis. The product and the sum are operations on doubles, each
  rounded; \<open>n\<close> is \<open>hit.face.normal\<close> as the raycaster reports it, with nothing applied
  to it.
\<close>

definition multiplyScalar :: "rat \<Rightarrow> vec3 \<Rightarrow> vec3" where
  "multiplyScalar k v =
     \<lparr>v3_x = double (v3_x v * k), v3_y = double (v3_y v * k), v3_z = double (v3_z v * k)\<rparr>"

definition add_vec3 :: "vec3 \<Rightarrow> vec3 \<Rightarrow> vec3" where
  "add_vec3 a b =
     \<lparr>v3_x = double (v3_x a + v3_x b), v3_y = double (v3_y a + v3_y b),
      v3_z = double (v3_z a + v3_z b)\<rparr>"

definition snapped_position :: "vec3 \<Rightarrow> vec3 \<Rightarrow> cell" where
  "snapped_position pt n =
     (let p = add_vec3 pt (multiplyScalar (1 / 2) n)
      in \<lparr>cell_x = Math_round (v3_x p), cell_y = Math_round (v3_y p),
          cell_z = Math_round (v3_z p)\<rparr>)"

text \<open>The three pieces of React state of the component.\<close>

record interaction =
  ghost :: "cell option"
  isHoveringVoxel :: bool
  hoveredVoxelId :: "ident option"

definition initial_interaction :: interaction where
  "initial_interaction = \<lparr>ghost = None, isHoveringVoxel = False, hoveredVoxelId = None\<rparr>"

text \<open>
  The per-frame callback, given the store's \<open>voxels\<close> and the list \<open>intersects\<close> that the
  raycaster returned. \<open>voxels[hit.instanceId]\<close> beyond the array is \<open>undefined\<close>, which
  is falsy, and then the hovered identity is left as it was.
\<close>

definition useFrame_Interaction :: "voxel list \<Rightarrow> hit list \<Rightarrow> interaction \<Rightarrow> interaction" where
  "useFrame_Interaction vs intersects ia =
     (case intersects of
        h # _ \<Rightarrow>
          (let ia1 =
             (if object_name h = ''voxels'' then
                (let ia0 = ia\<lparr>isHoveringVoxel := True\<rparr>
                 in case instanceId h of
                      Some i \<Rightarrow>
                        if i < length vs then ia0\<lparr>hoveredVoxelId := vox_id (vs ! i)\<rparr> else ia0
                    | None \<Rightarrow> ia0)
              else ia\<lparr>isHoveringVoxel := False, hoveredVoxelId := None\<rparr>)
           in ia1\<lparr>ghost := Some (snapped_position (point h) (face_normal h))\<rparr>)
      | [] \<Rightarrow> ia\<lparr>ghost := None, isHoveringVoxel := False\<rparr>)"

text \<open>
  JavaScript truthiness of the hovered identity: \<open>null\<close>, \<open>undefined\<close>, \<open>0\<close> and \<open>''\<close> are
  falsy.
\<close>

fun truthy :: "ident option \<Rightarrow> bool" where
  "truthy None = False"
| "truthy (Some (IdNum n)) = (n \<noteq> 0)"
| "truthy (Some (IdStr t)) = (t \<noteq> [])"

record mouse_event =
  button :: int
  altKey :: bool

definition add_intent :: "mouse_event \<Rightarrow> bool" where
  "add_intent e \<longleftrightarrow> button e = 0 \<and> \<not> altKey e"

definition remove_intent :: "mouse_event \<Rightarrow> interaction \<Rightarrow> bool" where
  "remove_intent e ia \<longleftrightarrow>
     button e = 0 \<and> altKey e \<and> isHoveringVoxel ia \<and> truthy (hoveredVoxelId ia)"

text \<open>Calling the value of \<open>state.removeVoxel\<close>: calling \<open>undefined\<close> throws a TypeError.\<close>

definition call_removeVoxel :: "ident option \<Rightarrow> store \<Rightarrow> js_error + store" where
  "call_removeVoxel i s =
     (case removeVoxel of None \<Rightarrow> Inl TypeError | Some f \<Rightarrow> Inr (f i s))"

text \<open>
  \<open>handleMouseDown\<close>, on the interaction state of the last frame. The call of \<open>addVoxel\<close>
  returns at its \<open>await\<close>, so the handler sees its synchronous part.
\<close>

definition handleMouseDown :: "mouse_event \<Rightarrow> interaction \<Rightarrow> store \<Rightarrow> js_error + store" where
  "handleMouseDown e ia s =
     (case ghost ia of
        None \<Rightarrow> Inr s
      | Some g \<Rightarrow>
          (let s1 = (if add_intent e
                     then fst (addVoxel_begin (cell_x g) (cell_y g) (cell_z g) s) else s)
           in if remove_intent e ia then call_removeVoxel (hoveredVoxelId ia) s1 else Inr s1))"

section \<open>Sequences of store operations\<close>

text \<open>
  The ways in which the store's \<open>voxels\<close> change: the answer to the initial load, the
  synchronous part of a local add, a realtime INSERT notification, and a change of the
  selected colour (which leaves \<open>voxels\<close> alone).
\<close>

datatype store_event =
    Loaded "row list option" "string option"
  | Added int int int
  | Inserted voxel
  | Selected string

fun apply_event :: "store_event \<Rightarrow> store \<Rightarrow> store" where
  "apply_event (Loaded data error) s = fst (initializeVoxels data error s)"
| "apply_event (Added a b c) s = fst (addVoxel_begin a b c s)"
| "apply_event (Inserted newVoxel) s = onInsert newVoxel s"
| "apply_event (Selected c) s = setSelectedColor c s"

text \<open>
  A snapshot of \<open>n\<close> voxels in \<open>n\<close> different cells along the x axis, as a bulk load of
  rows without a colour produces it.
\<close>

definition line_of_voxels :: "nat \<Rightarrow> voxel list" where
  "line_of_voxels n =
     map (\<lambda>k. \<lparr>vox_x = int k, vox_y = 0, vox_z = 0, vox_color = None, vox_id = None\<rparr>) [0..<n]"

section \<open>Facts about the rounding of numbers\<close>

lemma exponent_ge1:
  assumes "1 \<le> \<bar>r\<bar>"
  shows "2 powi exponent r \<le> \<bar>r\<bar> \<and> \<bar>r\<bar> < 2 powi (exponent r + 1)"
proof -
  let ?n = "\<lfloor>\<bar>r\<bar>\<rfloor>"
  have n: "0 < ?n" using assms by linarith
  from bitlen_bounds [OF n]
  have lo: "2 ^ nat (bitlen ?n - 1) \<le> ?n" and hi: "?n < 2 ^ nat (bitlen ?n)" by auto
  have b: "1 \<le> bitlen ?n" using n by (simp add: bitlen_alt_def)
  have e: "exponent r = bitlen ?n - 1" using assms by (simp add: exponent_def)
  have "(2::rat) powi (bitlen ?n - 1) = of_int (2 ^ nat (bitlen ?n - 1))"
    using b by (simp add: power_int_def)
  also have "\<dots> \<le> of_int ?n" using lo by (simp only: of_int_le_iff)
  also have "\<dots> \<le> \<bar>r\<bar>" by simp
  finally have 1: "2 powi exponent r \<le> \<bar>r\<bar>" by (simp add: e)
  have "?n + 1 \<le> 2 ^ nat (bitlen ?n)" using hi by simp
  then have "(of_int (?n + 1) :: rat) \<le> of_int (2 ^ nat (bitlen ?n))" by (simp only: of_int_le_iff)
  moreover have "\<bar>r\<bar> < of_int (?n + 1)" by simp linarith
  moreover have "(2::rat) powi (bitlen ?n - 1 + 1) = of_int (2 ^ nat (bitlen ?n))"
    using b by (simp add: power_int_def)
  ultimately have 2: "\<bar>r\<bar> < 2 powi (exponent r + 1)" by (simp add: e)
  from 1 2 show ?thesis ..
qed

lemma exponent_lt1:
  assumes "r \<noteq> 0" "\<bar>r\<bar> < 1"
  shows "2 powi exponent r \<le> \<bar>r\<bar> \<and> \<bar>r\<bar> < 2 powi (exponent r + 1)"
proof -
  let ?y = "1 / \<bar>r\<bar>"
  let ?n = "\<lceil>?y\<rceil>"
  let ?k = "bitlen (?n - 1)"
  have pos: "0 < \<bar>r\<bar>" using assms(1) by simp
  have y: "1 < ?y" using assms pos by (simp add: field_simps)
  have n: "0 < ?n - 1" using y by linarith
  from bitlen_bounds [OF n]
  have lo: "2 ^ nat (?k - 1) \<le> ?n - 1" and hi: "?n - 1 < 2 ^ nat ?k" by auto
  have k: "1 \<le> ?k" using n by (simp add: bitlen_alt_def)
  have e: "exponent r = - ?k" using assms by (simp add: exponent_def)
  have "?y \<le> of_int ?n" by simp
  also have "\<dots> \<le> of_int (2 ^ nat ?k)" using hi by (simp only: of_int_le_iff)
  finally have "?y \<le> 2 ^ nat ?k" by simp
  then have "1 / 2 ^ nat ?k \<le> \<bar>r\<bar>" using pos by (simp add: field_simps)
  moreover have "(2::rat) powi (- ?k) = 1 / 2 ^ nat ?k"
    using k by (simp add: power_int_def field_simps)
  ultimately have 1: "2 powi exponent r \<le> \<bar>r\<bar>" by (simp add: e)
  have "(of_int (2 ^ nat (?k - 1)) :: rat) \<le> of_int (?n - 1)" using lo by (simp only: of_int_le_iff)
  moreover have "of_int (?n - 1) < ?y" by simp linarith
  ultimately have "2 ^ nat (?k - 1) < ?y" by simp
  then have "\<bar>r\<bar> < 1 / 2 ^ nat (?k - 1)" using pos by (simp add: field_simps)
  moreover have "(2::rat) powi (- ?k + 1) = 1 / 2 ^ nat (?k - 1)"
  proof (cases "?k = 1")
    case True
    then show ?thesis by simp
  next
    case False
    with k have "nat (- (- ?k + 1)) = nat (?k - 1)" "\<not> 0 \<le> - ?k + 1" by simp_all
    then show ?thesis by (simp add: power_int_def field_simps)
  qed
  ultimately have 2: "\<bar>r\<bar> < 2 powi (exponent r + 1)" by (simp add: e)
  from 1 2 show ?thesis ..
qed

lemma exponent_bounds:
  assumes "r \<noteq> 0"
  shows "2 powi exponent r \<le> \<bar>r\<bar> \<and> \<bar>r\<bar> < 2 powi (exponent r + 1)"
  using assms exponent_ge1 [of r] exponent_lt1 [of r] by (cases "1 \<le> \<bar>r\<bar>") auto


lemma round_ties_even_of_int: "round_ties_even (of_int k) = k"
  by (simp add: round_ties_even_def)

lemma powi_less_exp:
  assumes "(2::rat) powi a < 2 powi b"
  shows "a < b"
proof (rule ccontr)
  assume "\<not> a < b"
  then have "b \<le> a" by simp
  then have "(2::rat) powi b \<le> 2 powi a" by (intro power_int_increasing) simp_all
  with assms show False by simp
qed

lemma round_binary_exact:
  assumes "r = of_int m * 2 powi k" "\<bar>m\<bar> < 2 ^ nat prec" "emin - (prec - 1) \<le> k" "0 < prec"
  shows "round_binary prec emin r = r"
proof (cases "r = 0")
  case True
  then show ?thesis by (simp add: round_binary_def)
next
  case False
  define u where "u = max (exponent r) emin - (prec - 1)"
  have "2 powi exponent r \<le> \<bar>r\<bar>" using exponent_bounds [OF False] by simp
  also have "\<bar>r\<bar> = of_int \<bar>m\<bar> * 2 powi k" by (simp add: assms(1) abs_mult)
  also have "\<dots> < of_int (2 ^ nat prec) * 2 powi k"
  proof -
    have "(0::rat) < 2 powi k" by (rule zero_less_power_int) simp
    moreover have "(of_int \<bar>m\<bar> :: rat) < of_int (2 ^ nat prec)"
      using assms(2) by (simp only: of_int_less_iff)
    ultimately show ?thesis by (rule mult_strict_right_mono [rotated])
  qed
  also have "\<dots> = 2 powi (prec + k)"
  proof -
    have "(of_int (2 ^ nat prec) :: rat) = 2 powi prec"
      using assms(4) by (simp add: power_int_def)
    then show ?thesis by (simp add: power_int_add)
  qed
  finally have "exponent r < prec + k" by (rule powi_less_exp)
  then have uk: "u \<le> k" using assms(3) by (simp add: u_def)
  have "r / 2 powi u = of_int m * 2 powi (k - u)"
    by (simp add: assms(1) power_int_diff)
  also have "\<dots> = of_int (m * 2 ^ nat (k - u))"
    using uk by (simp add: power_int_def)
  finally have rte: "round_ties_even (r / 2 powi u) = m * 2 ^ nat (k - u)"
    by (simp only: round_ties_even_of_int)
  have "(of_int (m * 2 ^ nat (k - u)) :: rat) = of_int m * 2 powi (k - u)"
    using uk by (simp add: power_int_def)
  then have "of_int (round_ties_even (r / 2 powi u)) * (2::rat) powi u =
      of_int m * 2 powi (k - u) * 2 powi u"
    by (simp only: rte)
  also have "\<dots> = r" by (simp add: assms(1) power_int_diff)
  finally show ?thesis using False by (simp add: round_binary_def Let_def u_def)
qed

lemma round_binary_24_int:
  assumes "\<bar>n\<bar> \<le> 2 ^ 24"
  shows "round_binary 24 (- 126) (of_int n) = of_int n"
proof (cases "\<bar>n\<bar> < 2 ^ 24")
  case True
  then show ?thesis
    by (intro round_binary_exact [where m = n and k = 0]) simp_all
next
  case False
  with assms have "n = 2 ^ 24 \<or> n = - (2 ^ 24)" by linarith
  then show ?thesis
    by (intro round_binary_exact [where m = "n div 2" and k = 1]) auto
qed

text \<open>A 32-bit float holds every integer up to \<open>2 ^ 24\<close> in magnitude exactly.\<close>

lemma fround_int_exact:
  assumes "\<bar>n\<bar> \<le> 2 ^ 24"
  shows "fround (of_int n) = Finite (of_int n)"
proof -
  have "(of_int n :: rat) \<le> of_int (2 ^ 24)" "(of_int (- (2 ^ 24)) :: rat) \<le> of_int n"
    using assms by (simp_all only: of_int_le_iff)
  then have "(of_int n :: rat) < 2 ^ 128" "- (2 ^ 128) < (of_int n :: rat)"
    by simp_all
  then show ?thesis
    by (simp add: fround_def round_binary_24_int [OF assms] Let_def)
qed

lemma round_ties_even_nearest: "\<bar>of_int (round_ties_even t) - t\<bar> \<le> 1 / 2"
proof -
  have "of_int \<lfloor>t\<rfloor> \<le> t" "t < of_int \<lfloor>t\<rfloor> + 1" by linarith+
  then show ?thesis
    unfolding round_ties_even_def Let_def by (simp split: if_splits)
qed

text \<open>The doubles that the frames evaluated below add up to.\<close>

lemma double_values:
  "double 0 = 0" "double (1 / 2) = 1 / 2" "double (- (1 / 2)) = - (1 / 2)" "double 1 = 1"
  "double (3 / 2) = 3 / 2" "double 2 = 2" "double 4 = 4" "double 5 = 5" "double (- 1) = - 1"
  by code_simp+

lemma Math_round_values:
  "Math_round 0 = 0" "Math_round (1 / 2) = 1" "Math_round (- (1 / 2)) = 0" "Math_round 1 = 1"
  "Math_round (3 / 2) = 2" "Math_round 2 = 2" "Math_round 4 = 4" "Math_round 5 = 5"
  "Math_round (- 1) = - 1"
  by code_simp+

lemma snapped_position_eval:
  "snapped_position pt n =
     \<lparr>cell_x = Math_round (double (v3_x pt + double (v3_x n * (1 / 2)))),
      cell_y = Math_round (double (v3_y pt + double (v3_y n * (1 / 2)))),
      cell_z = Math_round (double (v3_z pt + double (v3_z n * (1 / 2))))\<rparr>"
  by (simp add: snapped_position_def add_vec3_def multiplyScalar_def Let_def)

section \<open>Facts about the store\<close>

lemma length_line_of_voxels: "length (line_of_voxels n) = n"
  by (simp add: line_of_voxels_def)

lemma nth_line_of_voxels:
  "i < n \<Longrightarrow>
   line_of_voxels n ! i =
     \<lparr>vox_x = int i, vox_y = 0, vox_z = 0, vox_color = None, vox_id = None\<rparr>"
  by (simp add: line_of_voxels_def)

text \<open>The realtime path keeps the cells of the grid distinct.\<close>

lemma onInsert_unique_positions:
  "unique_positions (voxels s) \<Longrightarrow> unique_positions (voxels (onInsert n s))"
  by (auto simp: onInsert_def Let_def unique_positions_def list_ex_iff same_cell_def
      position_def)

text \<open>
  Claim C1 (uniqueness of positions under every sequence of adds). The local add appends
  without looking at the cell, unlike the realtime path above: two primary-button presses
  on the same placement candidate (a second press before the next frame has moved the
  candidate) leave two voxels in the cell \<open>(0, 0, 0)\<close>.
\<close>

theorem addVoxel_twice_same_cell:
  "handleMouseDown \<lparr>button = 0, altKey = False\<rparr>
      \<lparr>ghost = Some \<lparr>cell_x = 0, cell_y = 0, cell_z = 0\<rparr>, isHoveringVoxel = False,
       hoveredVoxelId = None\<rparr>
      initial_store =
    Inr \<lparr>voxels = [\<lparr>vox_x = 0, vox_y = 0, vox_z = 0, vox_color = Some ''#00ffff'',
                     vox_id = None\<rparr>],
         selectedColor = ''#00ffff''\<rparr>
   \<and> handleMouseDown \<lparr>button = 0, altKey = False\<rparr>
      \<lparr>ghost = Some \<lparr>cell_x = 0, cell_y = 0, cell_z = 0\<rparr>, isHoveringVoxel = False,
       hoveredVoxelId = None\<rparr>
      \<lparr>voxels = [\<lparr>vox_x = 0, vox_y = 0, vox_z = 0, vox_color = Some ''#00ffff'',
                  vox_id = None\<rparr>],
       selectedColor = ''#00ffff''\<rparr> =
    Inr \<lparr>voxels = [\<lparr>vox_x = 0, vox_y = 0, vox_z = 0, vox_color = Some ''#00ffff'',
                     vox_id = None\<rparr>,
                   \<lparr>vox_x = 0, vox_y = 0, vox_z = 0, vox_color = Some ''#00ffff'',
                     vox_id = None\<rparr>],
         selectedColor = ''#00ffff''\<rparr>
   \<and> \<not> unique_positions
        [\<lparr>vox_x = 0, vox_y = 0, vox_z = 0, vox_color = Some ''#00ffff'', vox_id = None\<rparr>,
         \<lparr>vox_x = 0, vox_y = 0, vox_z = 0, vox_color = Some ''#00ffff'', vox_id = None\<rparr>]"
  by (simp add: handleMouseDown_def add_intent_def remove_intent_def addVoxel_begin_def
      initial_store_def unique_positions_def position_def Let_def)

text \<open>
  Claim C5 (dedup idempotence). After a notification for a cell has been applied, a
  further notification with the same \<open>x\<close>, \<open>y\<close>, \<open>z\<close> changes nothing, whatever its
  identity and colour. A notification is dropped exactly when some voxel of the grid has
  its three coordinates, again whatever the other fields (so the echo of a local add is
  dropped), and is appended otherwise: of two deliveries for a free cell the first changes
  the grid and the second does not.
\<close>

theorem onInsert_dedup_by_coordinates:
  "(vox_x n' = vox_x n \<and> vox_y n' = vox_y n \<and> vox_z n' = vox_z n \<longrightarrow>
      onInsert n' (onInsert n s) = onInsert n s)
   \<and> ((\<exists>v \<in> set (voxels s). vox_x v = vox_x n \<and> vox_y v = vox_y n \<and> vox_z v = vox_z n) \<longrightarrow>
        onInsert n s = s)
   \<and> ((\<forall>v \<in> set (voxels s). \<not> (vox_x v = vox_x n \<and> vox_y v = vox_y n \<and> vox_z v = vox_z n)) \<longrightarrow>
        onInsert n s = s\<lparr>voxels := voxels s @ [n]\<rparr> \<and> onInsert n s \<noteq> s)"
proof (intro conjI impI)
  assume same: "vox_x n' = vox_x n \<and> vox_y n' = vox_y n \<and> vox_z n' = vox_z n"
  have "\<exists>v \<in> set (voxels (onInsert n s)).
          vox_x v = vox_x n \<and> vox_y v = vox_y n \<and> vox_z v = vox_z n"
    by (auto simp: onInsert_def Let_def same_cell_def list_ex_iff)
  with same have "list_ex (same_cell n') (voxels (onInsert n s))"
    by (simp add: same_cell_def list_ex_iff)
  then show "onInsert n' (onInsert n s) = onInsert n s"
    by (simp add: onInsert_def [of n'] Let_def)
next
  assume "\<exists>v \<in> set (voxels s). vox_x v = vox_x n \<and> vox_y v = vox_y n \<and> vox_z v = vox_z n"
  then have "list_ex (same_cell n) (voxels s)"
    by (simp add: same_cell_def list_ex_iff)
  then show "onInsert n s = s"
    by (simp add: onInsert_def Let_def)
next
  assume free: "\<forall>v \<in> set (voxels s).
      \<not> (vox_x v = vox_x n \<and> vox_y v = vox_y n \<and> vox_z v = vox_z n)"
  then have "\<not> list_ex (same_cell n) (voxels s)"
    by (simp add: same_cell_def list_ex_iff)
  then show "onInsert n s = s\<lparr>voxels := voxels s @ [n]\<rparr>"
    by (simp add: onInsert_def Let_def)
  then have "length (voxels (onInsert n s)) = Suc (length (voxels s))" by simp
  then show "onInsert n s \<noteq> s" by auto
qed

theorem onInsert_dedup_by_coordinates_witness:
  "onInsert \<lparr>vox_x = 1, vox_y = 2, vox_z = 3, vox_color = Some ''#ff003c'',
             vox_id = Some (IdNum 7)\<rparr>
      \<lparr>voxels = [\<lparr>vox_x = 0, vox_y = 0, vox_z = 0, vox_color = Some ''#00ffff'',
                  vox_id = None\<rparr>],
       selectedColor = ''#00ffff''\<rparr> =
    \<lparr>voxels = [\<lparr>vox_x = 0, vox_y = 0, vox_z = 0, vox_color = Some ''#00ffff'',
                vox_id = None\<rparr>,
              \<lparr>vox_x = 1, vox_y = 2, vox_z = 3, vox_color = Some ''#ff003c'',
                vox_id = Some (IdNum 7)\<rparr>],
     selectedColor = ''#00ffff''\<rparr>
   \<and> onInsert \<lparr>vox_x = 1, vox_y = 2, vox_z = 3, vox_color = Some ''#ccff00'',
                vox_id = Some (IdNum 8)\<rparr>
        (onInsert \<lparr>vox_x = 1, vox_y = 2, vox_z = 3, vox_color = Some ''#ff003c'',
                   vox_id = Some (IdNum 7)\<rparr>
           \<lparr>voxels = [\<lparr>vox_x = 0, vox_y = 0, vox_z = 0, vox_color = Some ''#00ffff'',
                       vox_id = None\<rparr>],
            selectedColor = ''#00ffff''\<rparr>) =
      \<lparr>voxels = [\<lparr>vox_x = 0, vox_y = 0, vox_z = 0, vox_color = Some ''#00ffff'',
                  vox_id = None\<rparr>,
                \<lparr>vox_x = 1, vox_y = 2, vox_z = 3, vox_color = Some ''#ff003c'',
                  vox_id = Some (IdNum 7)\<rparr>],
       selectedColor = ''#00ffff''\<rparr>
   \<and> onInsert \<lparr>vox_x = 0, vox_y = 0, vox_z = 0, vox_color = Some ''#00ffff'',
                vox_id = Some (IdNum 9)\<rparr>
        (fst (addVoxel_begin 0 0 0 initial_store)) =
      fst (addVoxel_begin 0 0 0 initial_store)
   \<and> voxels (fst (addVoxel_begin 0 0 0 initial_store)) =
      [\<lparr>vox_x = 0, vox_y = 0, vox_z = 0, vox_color = Some ''#00ffff'', vox_id = None\<rparr>]"
  using
    onInsert_dedup_by_coordinates
      [of "\<lparr>vox_x = 1, vox_y = 2, vox_z = 3, vox_color = Some ''#ccff00'',
             vox_id = Some (IdNum 8)\<rparr>"
          "\<lparr>vox_x = 1, vox_y = 2, vox_z = 3, vox_color = Some ''#ff003c'',
             vox_id = Some (IdNum 7)\<rparr>"
          "\<lparr>voxels = [\<lparr>vox_x = 0, vox_y = 0, vox_z = 0, vox_color = Some ''#00ffff'',
                        vox_id = None\<rparr>],
             selectedColor = ''#00ffff''\<rparr>"]
    onInsert_dedup_by_coordinates
      [of "\<lparr>vox_x = 0, vox_y = 0, vox_z = 0, vox_color = Some ''#00ffff'',
             vox_id = Some (IdNum 9)\<rparr>"
          "\<lparr>vox_x = 0, vox_y = 0, vox_z = 0, vox_color = Some ''#00ffff'',
             vox_id = Some (IdNum 9)\<rparr>"
          "fst (addVoxel_begin 0 0 0 initial_store)"]
  by (simp add: onInsert_def same_cell_def addVoxel_begin_def initial_store_def Let_def)

text \<open>
  Claim C8 (a rejected insert is logged and not rolled back). The part of \<open>addVoxel\<close>
  that runs after the external store has answered with an error returns the store it
  finds, whatever that is, and writes one log entry; so the whole add ends in the state
  that the optimistic append produced.
\<close>

theorem addVoxel_failed_insert:
  "addVoxel_resume (Some e) s = (s, [ConsoleError ''Error saving voxel:'' e])
   \<and> fst (addVoxel a b c (Some e) s) = fst (addVoxel_begin a b c s)
   \<and> voxels (fst (addVoxel a b c (Some e) s)) =
       voxels s @ [\<lparr>vox_x = a, vox_y = b, vox_z = c, vox_color = Some (selectedColor s),
                    vox_id = None\<rparr>]
   \<and> snd (addVoxel a b c (Some e) s) = [ConsoleError ''Error saving voxel:'' e]"
  by (simp add: addVoxel_def addVoxel_resume_def addVoxel_begin_def Let_def)

text \<open>
  Claim C9 (the add intent). A press of the primary button without the modifier, with a
  placement candidate, appends a voxel at exactly the candidate's cell in the selected
  colour; with no candidate every press returns with the store untouched.
\<close>

theorem handleMouseDown_add:
  "(ghost ia = Some g \<and> add_intent e \<longrightarrow>
      handleMouseDown e ia s =
        Inr (s\<lparr>voxels := voxels s @
                 [\<lparr>vox_x = cell_x g, vox_y = cell_y g, vox_z = cell_z g,
                   vox_color = Some (selectedColor s), vox_id = None\<rparr>]\<rparr>))
   \<and> (ghost ia = None \<longrightarrow> handleMouseDown e ia s = Inr s)"
  by (simp add: handleMouseDown_def add_intent_def remove_intent_def addVoxel_begin_def
      Let_def)

theorem handleMouseDown_add_witness:
  "ghost (initial_interaction\<lparr>ghost := Some \<lparr>cell_x = 2, cell_y = 3, cell_z = - 1\<rparr>\<rparr>) =
      Some \<lparr>cell_x = 2, cell_y = 3, cell_z = - 1\<rparr>
   \<and> add_intent \<lparr>button = 0, altKey = False\<rparr>
   \<and> handleMouseDown \<lparr>button = 0, altKey = False\<rparr>
        (initial_interaction\<lparr>ghost := Some \<lparr>cell_x = 2, cell_y = 3, cell_z = - 1\<rparr>\<rparr>)
        initial_store =
      Inr \<lparr>voxels = [\<lparr>vox_x = 2, vox_y = 3, vox_z = - 1, vox_color = Some ''#00ffff'',
                       vox_id = None\<rparr>],
           selectedColor = ''#00ffff''\<rparr>
   \<and> ghost initial_interaction = None
   \<and> handleMouseDown \<lparr>button = 0, altKey = False\<rparr> initial_interaction initial_store =
      Inr initial_store"
  using
    handleMouseDown_add [of "initial_interaction\<lparr>ghost := Some \<lparr>cell_x = 2, cell_y = 3,
        cell_z = - 1\<rparr>\<rparr>" "\<lparr>cell_x = 2, cell_y = 3, cell_z = - 1\<rparr>"
        "\<lparr>button = 0, altKey = False\<rparr>" initial_store]
    handleMouseDown_add [of initial_interaction "\<lparr>cell_x = 0, cell_y = 0, cell_z = 0\<rparr>"
        "\<lparr>button = 0, altKey = False\<rparr>" initial_store]
  by (simp add: initial_interaction_def initial_store_def add_intent_def)

section \<open>Facts about the placement candidate\<close>




section \<open>Facts about the projection\<close>

lemma count_forEach_voxel: "count (fst (forEach_voxel k vs (m, c))) = count m"
  by (induction vs arbitrary: k m c) (simp_all add: setColorAt_def setMatrixAt_def Let_def)

lemma snd_forEach_voxel: "snd (forEach_voxel k vs (m, c)) = colorHelper_after vs c"
  by (induction vs arbitrary: k m c) (simp_all add: Let_def)

lemma instanceMatrix_forEach_voxel:
  "instanceMatrix (fst (forEach_voxel k vs (m, c))) j =
     (if k \<le> j \<and> j < k + length vs \<and> j < MAX_INSTANCES
      then Some (map fround (dummy_matrix (vs ! (j - k)))) else instanceMatrix m j)"
proof (induction vs arbitrary: k m c)
  case Nil
  show ?case by auto
next
  case (Cons v vs)
  show ?case
    by (auto simp add: Cons.IH setColorAt_def setMatrixAt_def Let_def nth_Cons' Suc_diff_Suc)
qed

lemma instanceColor_forEach_voxel:
  "instanceColor (fst (forEach_voxel k vs (m, c))) j =
     (if k \<le> j \<and> j < k + length vs \<and> j < MAX_INSTANCES
      then Some (colorHelper_after (take (Suc (j - k)) vs) c) else instanceColor m j)"
proof (induction vs arbitrary: k m c)
  case Nil
  show ?case by auto
next
  case (Cons v vs)
  show ?case
    by (auto simp add: Cons.IH setColorAt_def setMatrixAt_def Let_def Suc_diff_Suc)
qed

lemma colorHelper_after_take_Suc:
  "i < length vs \<Longrightarrow>
   colorHelper_after (take (Suc i) vs) c =
     Color_set (color_or_default (vox_color (vs ! i))) (colorHelper_after (take i vs) c)"
proof (induction vs arbitrary: i c)
  case Nil
  then show ?case by simp
next
  case (Cons v vs)
  then show ?case by (cases i) simp_all
qed

lemma fround_translation:
  assumes "\<bar>a\<bar> \<le> 2 ^ 24" "\<bar>b\<bar> \<le> 2 ^ 24" "\<bar>c\<bar> \<le> 2 ^ 24"
  shows "map fround (translation a b c) = map Finite (translation a b c)"
proof -
  have "fround 0 = Finite 0" "fround 1 = Finite 1"
    using fround_int_exact [of 0] fround_int_exact [of 1] by simp_all
  then show ?thesis
    using assms by (simp add: translation_def fround_int_exact)
qed

text \<open>
  Claim C4 as stated fails. On a snapshot of 100001 voxels without a colour the exposed
  count is 100001, slot 0 holds the helper set to the default colour although element 0
  has no colour, and slot 100000 is below the count but was never written. On a snapshot
  of a voxel at \<open>x = 16777217\<close> followed by a voxel with the colour string \<open>bogus\<close>, the
  matrix of slot 0 translates to \<open>x = 16777216\<close>, and slot 1 holds the helper that was set
  to the first voxel's colour before it was set to \<open>bogus\<close>.
\<close>

theorem projection_slots_counterexample:
  "count (fst (project (line_of_voxels 100001) Color_new blank_mesh)) = 100001
   \<and> vox_color (line_of_voxels 100001 ! 0) = None
   \<and> instanceColor (fst (project (line_of_voxels 100001) Color_new blank_mesh)) 0 =
       Some (Color_set ''#00d2ff'' Color_new)
   \<and> instanceMatrix (fst (project (line_of_voxels 100001) Color_new blank_mesh)) 100000 = None
   \<and> instanceColor (fst (project (line_of_voxels 100001) Color_new blank_mesh)) 100000 = None
   \<and> instanceMatrix
       (fst (project
          [\<lparr>vox_x = 16777217, vox_y = 0, vox_z = 0, vox_color = Some ''#ff003c'',
            vox_id = None\<rparr>,
           \<lparr>vox_x = 1, vox_y = 0, vox_z = 0, vox_color = Some ''bogus'', vox_id = None\<rparr>]
          Color_new blank_mesh)) 0 =
       Some (map Finite [1, 0, 0, 0, 0, 1, 0, 0, 0, 0, 1, 0, 16777216, 0, 0, 1])
   \<and> instanceColor
       (fst (project
          [\<lparr>vox_x = 16777217, vox_y = 0, vox_z = 0, vox_color = Some ''#ff003c'',
            vox_id = None\<rparr>,
           \<lparr>vox_x = 1, vox_y = 0, vox_z = 0, vox_color = Some ''bogus'', vox_id = None\<rparr>]
          Color_new blank_mesh)) 1 =
       Some (Color_set ''bogus'' (Color_set ''#ff003c'' Color_new))"
proof -
  have long: "count (fst (project (line_of_voxels 100001) Color_new blank_mesh)) = 100001
      \<and> vox_color (line_of_voxels 100001 ! 0) = None
      \<and> instanceColor (fst (project (line_of_voxels 100001) Color_new blank_mesh)) 0 =
          Some (Color_set ''#00d2ff'' Color_new)
      \<and> instanceMatrix (fst (project (line_of_voxels 100001) Color_new blank_mesh)) 100000 =
          None
      \<and> instanceColor (fst (project (line_of_voxels 100001) Color_new blank_mesh)) 100000 =
          None"
    by (simp add: project_def count_forEach_voxel instanceMatrix_forEach_voxel
        instanceColor_forEach_voxel colorHelper_after_take_Suc length_line_of_voxels
        nth_line_of_voxels color_or_default_def MAX_INSTANCES_def blank_mesh_def)
  have "fround 0 = Finite 0" "fround 1 = Finite 1" "fround 16777217 = Finite 16777216"
    by code_simp+
  then have short: "instanceMatrix
       (fst (project
          [\<lparr>vox_x = 16777217, vox_y = 0, vox_z = 0, vox_color = Some ''#ff003c'',
            vox_id = None\<rparr>,
           \<lparr>vox_x = 1, vox_y = 0, vox_z = 0, vox_color = Some ''bogus'', vox_id = None\<rparr>]
          Color_new blank_mesh)) 0 =
       Some (map Finite [1, 0, 0, 0, 0, 1, 0, 0, 0, 0, 1, 0, 16777216, 0, 0, 1])
   \<and> instanceColor
       (fst (project
          [\<lparr>vox_x = 16777217, vox_y = 0, vox_z = 0, vox_color = Some ''#ff003c'',
            vox_id = None\<rparr>,
           \<lparr>vox_x = 1, vox_y = 0, vox_z = 0, vox_color = Some ''bogus'', vox_id = None\<rparr>]
          Color_new blank_mesh)) 1 =
       Some (Color_set ''bogus'' (Color_set ''#ff003c'' Color_new))"
    by (simp add: project_def setColorAt_def setMatrixAt_def Let_def dummy_matrix_def
        translation_def color_or_default_def MAX_INSTANCES_def blank_mesh_def)
  from long short show ?thesis by (intro conjI) (elim conjE, assumption)+
qed

text \<open>
  Claim C4, amended. On a mounted mesh the exposed count is the length of the snapshot.
  Every slot \<open>i\<close> below the count and below the capacity holds the translation to the
  position of element \<open>i\<close> with each coordinate rounded to a 32-bit float, which is the
  position itself where no coordinate exceeds \<open>2 ^ 24\<close> in magnitude. Its colour is what the
  shared colour helper holds after it has been set to the colour string of element \<open>i\<close>,
  or to \<open>#00d2ff\<close> where that is missing or empty: the parsed colour when the string
  parses, and otherwise what the helper held before, which is the colour of slot \<open>i - 1\<close>
  or, for slot 0, what the helper held when the projection began.
\<close>

theorem projection_consistency:
  "VoxelInstances_effect vs c (Some m) =
      Inr (Some (fst (project vs c m)), snd (project vs c m))
   \<and> count (fst (project vs c m)) = length vs
   \<and> (i < length vs \<and> i < MAX_INSTANCES \<longrightarrow>
        instanceMatrix (fst (project vs c m)) i =
          Some (map fround (translation (vox_x (vs ! i)) (vox_y (vs ! i)) (vox_z (vs ! i))))
        \<and> (\<bar>vox_x (vs ! i)\<bar> \<le> 2 ^ 24 \<and> \<bar>vox_y (vs ! i)\<bar> \<le> 2 ^ 24 \<and> \<bar>vox_z (vs ! i)\<bar> \<le> 2 ^ 24 \<longrightarrow>
             instanceMatrix (fst (project vs c m)) i =
               Some (map Finite
                       (translation (vox_x (vs ! i)) (vox_y (vs ! i)) (vox_z (vs ! i)))))
        \<and> instanceColor (fst (project vs c m)) i =
            Some (Color_set (color_or_default (vox_color (vs ! i)))
                    (colorHelper_after (take i vs) c))
        \<and> color_or_default (vox_color (vs ! i)) =
            (case vox_color (vs ! i) of
               None \<Rightarrow> ''#00d2ff''
             | Some t \<Rightarrow> if t = [] then ''#00d2ff'' else t)
        \<and> colorHelper_after (take 0 vs) c = c
        \<and> (0 < i \<longrightarrow>
             instanceColor (fst (project vs c m)) (i - 1) =
               Some (colorHelper_after (take i vs) c))
        \<and> (parse (color_or_default (vox_color (vs ! i))) = Some rgb \<longrightarrow>
             Color_value parse white
               (Color_set (color_or_default (vox_color (vs ! i)))
                  (colorHelper_after (take i vs) c)) = rgb)
        \<and> (parse (color_or_default (vox_color (vs ! i))) = None \<longrightarrow>
             Color_value parse white
               (Color_set (color_or_default (vox_color (vs ! i)))
                  (colorHelper_after (take i vs) c)) =
             Color_value parse white (colorHelper_after (take i vs) c)))"
proof (intro conjI impI)
  show "VoxelInstances_effect vs c (Some m) =
      Inr (Some (fst (project vs c m)), snd (project vs c m))"
    by (simp add: VoxelInstances_effect_def)
  show "count (fst (project vs c m)) = length vs"
    by (simp add: project_def count_forEach_voxel)
next
  assume i: "i < length vs \<and> i < MAX_INSTANCES"
  then show mat: "instanceMatrix (fst (project vs c m)) i =
      Some (map fround (translation (vox_x (vs ! i)) (vox_y (vs ! i)) (vox_z (vs ! i))))"
    by (simp add: project_def instanceMatrix_forEach_voxel dummy_matrix_def)
  show "instanceColor (fst (project vs c m)) i =
      Some (Color_set (color_or_default (vox_color (vs ! i)))
              (colorHelper_after (take i vs) c))"
    using i by (simp add: project_def instanceColor_forEach_voxel colorHelper_after_take_Suc)
  show "color_or_default (vox_color (vs ! i)) =
      (case vox_color (vs ! i) of
         None \<Rightarrow> ''#00d2ff''
       | Some t \<Rightarrow> if t = [] then ''#00d2ff'' else t)"
    by (simp add: color_or_default_def)
  show "colorHelper_after (take 0 vs) c = c"
    by simp
  {
    assume "\<bar>vox_x (vs ! i)\<bar> \<le> 2 ^ 24 \<and> \<bar>vox_y (vs ! i)\<bar> \<le> 2 ^ 24 \<and> \<bar>vox_z (vs ! i)\<bar> \<le> 2 ^ 24"
    then show "instanceMatrix (fst (project vs c m)) i =
        Some (map Finite (translation (vox_x (vs ! i)) (vox_y (vs ! i)) (vox_z (vs ! i))))"
      using mat by (simp add: fround_translation)
  }
  {
    assume "0 < i"
    then have "Suc (i - 1) = i" "i - 1 < length vs" "i - 1 < MAX_INSTANCES"
      using i by arith+
    then show "instanceColor (fst (project vs c m)) (i - 1) =
        Some (colorHelper_after (take i vs) c)"
      by (simp add: project_def instanceColor_forEach_voxel)
  }
  {
    assume "parse (color_or_default (vox_color (vs ! i))) = Some rgb"
    then show "Color_value parse white
        (Color_set (color_or_default (vox_color (vs ! i)))
           (colorHelper_after (take i vs) c)) = rgb"
      by simp
  }
  {
    assume "parse (color_or_default (vox_color (vs ! i))) = None"
    then show "Color_value parse white
        (Color_set (color_or_default (vox_color (vs ! i)))
           (colorHelper_after (take i vs) c)) =
        Color_value parse white (colorHelper_after (take i vs) c)"
      by simp
  }
qed

theorem projection_consistency_witness:
  "(1::nat) < length [\<lparr>vox_x = 1, vox_y = 2, vox_z = 3, vox_color = Some ''#ff003c'', vox_id = None\<rparr>,
          \<lparr>vox_x = 4, vox_y = 5, vox_z = - 6, vox_color = Some ''bogus'', vox_id = None\<rparr>]
   \<and> 1 < MAX_INSTANCES
   \<and> count (fst (project [\<lparr>vox_x = 1, vox_y = 2, vox_z = 3, vox_color = Some ''#ff003c'', vox_id = None\<rparr>,
          \<lparr>vox_x = 4, vox_y = 5, vox_z = - 6, vox_color = Some ''bogus'', vox_id = None\<rparr>] Color_new blank_mesh)) = 2
   \<and> instanceMatrix (fst (project [\<lparr>vox_x = 1, vox_y = 2, vox_z = 3, vox_color = Some ''#ff003c'', vox_id = None\<rparr>,
          \<lparr>vox_x = 4, vox_y = 5, vox_z = - 6, vox_color = Some ''bogus'', vox_id = None\<rparr>] Color_new blank_mesh)) 1 =
       Some (map Finite [1, 0, 0, 0, 0, 1, 0, 0, 0, 0, 1, 0, 4, 5, - 6, 1])
   \<and> instanceColor (fst (project [\<lparr>vox_x = 1, vox_y = 2, vox_z = 3, vox_color = Some ''#ff003c'', vox_id = None\<rparr>,
          \<lparr>vox_x = 4, vox_y = 5, vox_z = - 6, vox_color = Some ''bogus'', vox_id = None\<rparr>] Color_new blank_mesh)) 0 =
       Some (Color_set ''#ff003c'' Color_new)
   \<and> instanceColor (fst (project [\<lparr>vox_x = 1, vox_y = 2, vox_z = 3, vox_color = Some ''#ff003c'', vox_id = None\<rparr>,
          \<lparr>vox_x = 4, vox_y = 5, vox_z = - 6, vox_color = Some ''bogus'', vox_id = None\<rparr>] Color_new blank_mesh)) 1 =
       Some (Color_set ''bogus'' (Color_set ''#ff003c'' Color_new))
   \<and> (map_of [(''#ff003c'', (255::nat, 0::nat, 60::nat))]) ''#ff003c'' = Some (255, 0, 60)
   \<and> (map_of [(''#ff003c'', (255::nat, 0::nat, 60::nat))]) ''bogus'' = None
   \<and> Color_value (map_of [(''#ff003c'', (255::nat, 0::nat, 60::nat))]) (255, 255, 255) (Color_set ''#ff003c'' Color_new) = (255, 0, 60)
   \<and> Color_value (map_of [(''#ff003c'', (255::nat, 0::nat, 60::nat))]) (255, 255, 255)
        (Color_set ''bogus'' (Color_set ''#ff003c'' Color_new)) = (255, 0, 60)"
  using
    projection_consistency
      [where vs = "[\<lparr>vox_x = 1, vox_y = 2, vox_z = 3, vox_color = Some ''#ff003c'', vox_id = None\<rparr>,
          \<lparr>vox_x = 4, vox_y = 5, vox_z = - 6, vox_color = Some ''bogus'', vox_id = None\<rparr>]" and c = Color_new and m = blank_mesh and i = 1
         and parse = "(map_of [(''#ff003c'', (255::nat, 0::nat, 60::nat))])"
         and white = "(255, 255, 255)" and rgb = "(255, 0, 60)"]
    projection_consistency
      [where vs = "[\<lparr>vox_x = 1, vox_y = 2, vox_z = 3, vox_color = Some ''#ff003c'', vox_id = None\<rparr>,
          \<lparr>vox_x = 4, vox_y = 5, vox_z = - 6, vox_color = Some ''bogus'', vox_id = None\<rparr>]" and c = Color_new and m = blank_mesh and i = 0
         and parse = "(map_of [(''#ff003c'', (255::nat, 0::nat, 60::nat))])"
         and white = "(255, 255, 255)" and rgb = "(255, 0, 60)"]
    fround_int_exact [of 0] fround_int_exact [of 1] fround_int_exact [of 4]
    fround_int_exact [of 5] fround_int_exact [of "- 6"]
  by (simp add: MAX_INSTANCES_def translation_def color_or_default_def)

text \<open>
  Claim C7 as stated fails on a snapshot of 100001 voxels: the effect returns normally,
  with an exposed count above the capacity.
\<close>

theorem projection_over_capacity_counterexample:
  "MAX_INSTANCES < length (line_of_voxels 100001)
   \<and> \<not> isl (VoxelInstances_effect (line_of_voxels 100001) Color_new (Some blank_mesh))
   \<and> map_option count
       (fst (projr (VoxelInstances_effect (line_of_voxels 100001) Color_new
          (Some blank_mesh)))) = Some 100001"
  by (simp add: VoxelInstances_effect_def project_def count_forEach_voxel
      length_line_of_voxels MAX_INSTANCES_def)

text \<open>
  Claim C7, amended. Projecting a snapshot longer than the capacity does not fail and
  surfaces nothing to the caller: the effect returns normally with the exposed count set
  to the snapshot length, above the capacity, and the stores at the indices from the
  capacity on are dropped, so both buffers are there what they were.
\<close>

theorem projection_over_capacity:
  "MAX_INSTANCES < length vs \<longrightarrow>
     VoxelInstances_effect vs c (Some m) =
       Inr (Some (fst (project vs c m)), snd (project vs c m))
     \<and> count (fst (project vs c m)) = length vs
     \<and> MAX_INSTANCES < count (fst (project vs c m))
     \<and> (MAX_INSTANCES \<le> j \<longrightarrow>
          instanceMatrix (fst (project vs c m)) j = instanceMatrix m j
          \<and> instanceColor (fst (project vs c m)) j = instanceColor m j)"
  by (simp add: VoxelInstances_effect_def project_def count_forEach_voxel
      instanceMatrix_forEach_voxel instanceColor_forEach_voxel)

theorem projection_over_capacity_witness:
  "MAX_INSTANCES < length (line_of_voxels 100001)
   \<and> MAX_INSTANCES \<le> 100000
   \<and> VoxelInstances_effect (line_of_voxels 100001) Color_new (Some blank_mesh) =
       Inr (Some (fst (project (line_of_voxels 100001) Color_new blank_mesh)),
            snd (project (line_of_voxels 100001) Color_new blank_mesh))
   \<and> count (fst (project (line_of_voxels 100001) Color_new blank_mesh)) = 100001
   \<and> instanceMatrix (fst (project (line_of_voxels 100001) Color_new blank_mesh)) 100000 = None
   \<and> instanceColor (fst (project (line_of_voxels 100001) Color_new blank_mesh)) 100000 = None"
  using projection_over_capacity [of "line_of_voxels 100001" Color_new blank_mesh 100000]
  by (simp add: length_line_of_voxels MAX_INSTANCES_def blank_mesh_def)

section \<open>Facts about hovering and removal\<close>

text \<open>A voxel that carries an identity in the store came from a realtime notification.\<close>

lemma identity_from_notification:
  "v \<in> set (voxels (fold apply_event evs s)) \<Longrightarrow> vox_id v \<noteq> None \<Longrightarrow>
     v \<in> set (voxels s) \<or> Inserted v \<in> set evs"
proof (induction evs arbitrary: s)
  case Nil
  then show ?case by simp
next
  case (Cons ev evs)
  from Cons.IH [OF _ Cons.prems(2), of "apply_event ev s"] Cons.prems(1)
  have "v \<in> set (voxels (apply_event ev s)) \<or> Inserted v \<in> set evs"
    by simp
  moreover have "v \<in> set (voxels (apply_event ev s)) \<Longrightarrow> v \<in> set (voxels s) \<or> ev = Inserted v"
    using Cons.prems(2)
    by (cases ev)
      (auto simp: initializeVoxels_def addVoxel_begin_def onInsert_def Let_def
        voxel_of_row_def setSelectedColor_def split: option.splits if_splits)
  ultimately show ?case by auto
qed

lemma hover_without_identity:
  assumes "i < length vs" "vox_id (vs ! i) = None"
    and "object_name h = ''voxels''" "instanceId h = Some i"
  shows "hoveredVoxelId (useFrame_Interaction vs (h # hs) ia) = None"
  using assms by (simp add: useFrame_Interaction_def Let_def)

text \<open>
  Claim C2 (remove by identity, and the end of the end-to-end scenario). The store
  defines no \<open>removeVoxel\<close>. In the scenario, the add intent at \<open>(2, 3, -1)\<close> leaves one
  voxel, projected with count 1; the next frame hovers it (instance 0, hit on its top
  face) and resolves no identity, so the remove intent does nothing and the grid still
  holds the voxel. Had the hovered voxel an identity, the handler would call \<open>undefined\<close>
  and throw.
\<close>

theorem remove_intent_scenario:
  "removeVoxel = None
   \<and> handleMouseDown \<lparr>button = 0, altKey = False\<rparr>
        \<lparr>ghost = Some \<lparr>cell_x = 2, cell_y = 3, cell_z = - 1\<rparr>, isHoveringVoxel = False,
         hoveredVoxelId = None\<rparr> initial_store =
      Inr \<lparr>voxels = [\<lparr>vox_x = 2, vox_y = 3, vox_z = - 1, vox_color = Some ''#00ffff'',
                       vox_id = None\<rparr>],
           selectedColor = ''#00ffff''\<rparr>
   \<and> count (fst (project [\<lparr>vox_x = 2, vox_y = 3, vox_z = - 1,
                             vox_color = Some ''#00ffff'', vox_id = None\<rparr>]
                    Color_new blank_mesh)) = 1
   \<and> useFrame_Interaction
        [\<lparr>vox_x = 2, vox_y = 3, vox_z = - 1, vox_color = Some ''#00ffff'', vox_id = None\<rparr>]
        [\<lparr>object_name = ''voxels'', instanceId = Some 0,
          point = \<lparr>v3_x = 2, v3_y = 7 / 2, v3_z = - 1\<rparr>,
          face_normal = \<lparr>v3_x = 0, v3_y = 1, v3_z = 0\<rparr>\<rparr>]
        \<lparr>ghost = Some \<lparr>cell_x = 2, cell_y = 3, cell_z = - 1\<rparr>, isHoveringVoxel = False,
         hoveredVoxelId = None\<rparr> =
      \<lparr>ghost = Some \<lparr>cell_x = 2, cell_y = 4, cell_z = - 1\<rparr>, isHoveringVoxel = True,
       hoveredVoxelId = None\<rparr>
   \<and> handleMouseDown \<lparr>button = 0, altKey = True\<rparr>
        \<lparr>ghost = Some \<lparr>cell_x = 2, cell_y = 4, cell_z = - 1\<rparr>, isHoveringVoxel = True,
         hoveredVoxelId = None\<rparr>
        \<lparr>voxels = [\<lparr>vox_x = 2, vox_y = 3, vox_z = - 1, vox_color = Some ''#00ffff'',
                    vox_id = None\<rparr>],
         selectedColor = ''#00ffff''\<rparr> =
      Inr \<lparr>voxels = [\<lparr>vox_x = 2, vox_y = 3, vox_z = - 1, vox_color = Some ''#00ffff'',
                       vox_id = None\<rparr>],
           selectedColor = ''#00ffff''\<rparr>
   \<and> handleMouseDown \<lparr>button = 0, altKey = True\<rparr>
        \<lparr>ghost = Some \<lparr>cell_x = 2, cell_y = 4, cell_z = - 1\<rparr>, isHoveringVoxel = True,
         hoveredVoxelId = Some (IdNum 7)\<rparr>
        \<lparr>voxels = [\<lparr>vox_x = 2, vox_y = 3, vox_z = - 1, vox_color = Some ''#00ffff'',
                    vox_id = Some (IdNum 7)\<rparr>],
         selectedColor = ''#00ffff''\<rparr> =
      Inl TypeError"
proof -
  have "count (fst (project vs Color_new blank_mesh)) = length vs" for vs
    by (simp add: project_def count_forEach_voxel)
  then show ?thesis
    by (simp add: removeVoxel_def handleMouseDown_def add_intent_def remove_intent_def
        addVoxel_begin_def initial_store_def useFrame_Interaction_def snapped_position_eval
        double_values Math_round_values call_removeVoxel_def Let_def)
qed

text \<open>
  Claim C6 (a frame without a hit clears the candidate and the hovered identity). After a
  frame that hovers a voxel with the identity 7, a frame in which the ray hits nothing
  clears the candidate and the hovering flag and keeps the identity 7; the branch for a
  hit on the ground resets it, this one does not.
\<close>

theorem no_hit_keeps_hoveredVoxelId:
  "useFrame_Interaction
      [\<lparr>vox_x = 0, vox_y = 0, vox_z = 0, vox_color = Some ''#ff003c'',
        vox_id = Some (IdNum 7)\<rparr>]
      [\<lparr>object_name = ''voxels'', instanceId = Some 0,
        point = \<lparr>v3_x = 0, v3_y = 1 / 2, v3_z = 0\<rparr>,
        face_normal = \<lparr>v3_x = 0, v3_y = 1, v3_z = 0\<rparr>\<rparr>]
      initial_interaction =
    \<lparr>ghost = Some \<lparr>cell_x = 0, cell_y = 1, cell_z = 0\<rparr>, isHoveringVoxel = True,
     hoveredVoxelId = Some (IdNum 7)\<rparr>
   \<and> useFrame_Interaction
      [\<lparr>vox_x = 0, vox_y = 0, vox_z = 0, vox_color = Some ''#ff003c'',
        vox_id = Some (IdNum 7)\<rparr>]
      []
      \<lparr>ghost = Some \<lparr>cell_x = 0, cell_y = 1, cell_z = 0\<rparr>, isHoveringVoxel = True,
       hoveredVoxelId = Some (IdNum 7)\<rparr> =
    \<lparr>ghost = None, isHoveringVoxel = False, hoveredVoxelId = Some (IdNum 7)\<rparr>
   \<and> useFrame_Interaction
      [\<lparr>vox_x = 0, vox_y = 0, vox_z = 0, vox_color = Some ''#ff003c'',
        vox_id = Some (IdNum 7)\<rparr>]
      [\<lparr>object_name = ''ground'', instanceId = None,
        point = \<lparr>v3_x = 5, v3_y = - (1 / 2), v3_z = 5\<rparr>,
        face_normal = \<lparr>v3_x = 0, v3_y = 1, v3_z = 0\<rparr>\<rparr>]
      \<lparr>ghost = Some \<lparr>cell_x = 0, cell_y = 1, cell_z = 0\<rparr>, isHoveringVoxel = True,
       hoveredVoxelId = Some (IdNum 7)\<rparr> =
    \<lparr>ghost = Some \<lparr>cell_x = 5, cell_y = 0, cell_z = 5\<rparr>, isHoveringVoxel = False,
     hoveredVoxelId = None\<rparr>"
  by (simp add: useFrame_Interaction_def initial_interaction_def snapped_position_eval
      double_values Math_round_values Let_def)

text \<open>
  Claim C10 (no identity on loaded and locally added voxels). The voxels of a successful
  initial load and the voxel of a local add have no identity; whatever the sequence of
  store operations from the initial store, a voxel with an identity is the payload of a
  realtime notification. A frame that hovers a voxel without identity resolves no hovered
  identity, so no mouse event is a remove intent on it, and a press that is not an add
  leaves the store as it is.
\<close>

theorem no_identity_no_remove:
  "(\<forall>v \<in> set (voxels (fst (initializeVoxels data None s))). vox_id v = None)
   \<and> vox_id (snd (addVoxel_begin a b c s)) = None
   \<and> voxels (fst (addVoxel_begin a b c s)) = voxels s @ [snd (addVoxel_begin a b c s)]
   \<and> (w \<in> set (voxels (fold apply_event evs initial_store)) \<and> vox_id w \<noteq> None \<longrightarrow>
        Inserted w \<in> set evs)
   \<and> (i < length vs \<and> vox_id (vs ! i) = None \<and> object_name h = ''voxels''
        \<and> instanceId h = Some i \<longrightarrow>
        hoveredVoxelId (useFrame_Interaction vs (h # hs) ia) = None
        \<and> \<not> remove_intent e (useFrame_Interaction vs (h # hs) ia)
        \<and> (\<not> add_intent e \<longrightarrow>
             handleMouseDown e (useFrame_Interaction vs (h # hs) ia) s = Inr s))"
proof (intro conjI)
  show "\<forall>v \<in> set (voxels (fst (initializeVoxels data None s))). vox_id v = None"
    by (auto simp: initializeVoxels_def voxel_of_row_def split: option.splits)
  show "vox_id (snd (addVoxel_begin a b c s)) = None"
    by (simp add: addVoxel_begin_def Let_def)
  show "voxels (fst (addVoxel_begin a b c s)) = voxels s @ [snd (addVoxel_begin a b c s)]"
    by (simp add: addVoxel_begin_def Let_def)
  show "w \<in> set (voxels (fold apply_event evs initial_store)) \<and> vox_id w \<noteq> None \<longrightarrow>
        Inserted w \<in> set evs"
    using identity_from_notification [of w evs initial_store]
    by (auto simp: initial_store_def)
  show "i < length vs \<and> vox_id (vs ! i) = None \<and> object_name h = ''voxels''
        \<and> instanceId h = Some i \<longrightarrow>
        hoveredVoxelId (useFrame_Interaction vs (h # hs) ia) = None
        \<and> \<not> remove_intent e (useFrame_Interaction vs (h # hs) ia)
        \<and> (\<not> add_intent e \<longrightarrow>
             handleMouseDown e (useFrame_Interaction vs (h # hs) ia) s = Inr s)"
  proof (intro impI, elim conjE)
    assume a: "i < length vs" "vox_id (vs ! i) = None" "object_name h = ''voxels''"
      "instanceId h = Some i"
    have none: "hoveredVoxelId (useFrame_Interaction vs (h # hs) ia) = None"
      using a by (rule hover_without_identity)
    then have no_remove: "\<not> remove_intent e (useFrame_Interaction vs (h # hs) ia)"
      by (simp add: remove_intent_def)
    have "\<not> add_intent e \<longrightarrow>
          handleMouseDown e (useFrame_Interaction vs (h # hs) ia) s = Inr s"
      using no_remove by (simp add: handleMouseDown_def Let_def split: option.splits)
    with none no_remove
    show "hoveredVoxelId (useFrame_Interaction vs (h # hs) ia) = None
        \<and> \<not> remove_intent e (useFrame_Interaction vs (h # hs) ia)
        \<and> (\<not> add_intent e \<longrightarrow>
             handleMouseDown e (useFrame_Interaction vs (h # hs) ia) s = Inr s)"
      by simp
  qed
qed

theorem no_identity_no_remove_witness:
  "map vox_id
      (voxels (fst (initializeVoxels
         (Some [\<lparr>row_x = 1, row_y = 2, row_z = 3, row_color = Some ''#ccff00''\<rparr>]) None
         initial_store))) = [None]
   \<and> \<lparr>vox_x = 1, vox_y = 1, vox_z = 1, vox_color = Some ''#ff003c'', vox_id = Some (IdNum 7)\<rparr>
       \<in> set (voxels (fold apply_event
           [Added 0 0 0,
            Inserted \<lparr>vox_x = 1, vox_y = 1, vox_z = 1, vox_color = Some ''#ff003c'',
                      vox_id = Some (IdNum 7)\<rparr>] initial_store))
   \<and> vox_id \<lparr>vox_x = 1, vox_y = 1, vox_z = 1, vox_color = Some ''#ff003c'',
              vox_id = Some (IdNum 7)\<rparr> \<noteq> None
   \<and> (0::nat) < length [\<lparr>vox_x = 0, vox_y = 0, vox_z = 0, vox_color = Some ''#00ffff'',
                         vox_id = None\<rparr>]
   \<and> vox_id ([\<lparr>vox_x = 0, vox_y = 0, vox_z = 0, vox_color = Some ''#00ffff'',
                vox_id = None\<rparr>] ! 0) = None
   \<and> hoveredVoxelId
       (useFrame_Interaction
          [\<lparr>vox_x = 0, vox_y = 0, vox_z = 0, vox_color = Some ''#00ffff'', vox_id = None\<rparr>]
          [\<lparr>object_name = ''voxels'', instanceId = Some 0,
            point = \<lparr>v3_x = 0, v3_y = 1 / 2, v3_z = 0\<rparr>,
            face_normal = \<lparr>v3_x = 0, v3_y = 1, v3_z = 0\<rparr>\<rparr>]
          initial_interaction) = None
   \<and> \<not> add_intent \<lparr>button = 0, altKey = True\<rparr>
   \<and> handleMouseDown \<lparr>button = 0, altKey = True\<rparr>
       (useFrame_Interaction
          [\<lparr>vox_x = 0, vox_y = 0, vox_z = 0, vox_color = Some ''#00ffff'', vox_id = None\<rparr>]
          [\<lparr>object_name = ''voxels'', instanceId = Some 0,
            point = \<lparr>v3_x = 0, v3_y = 1 / 2, v3_z = 0\<rparr>,
            face_normal = \<lparr>v3_x = 0, v3_y = 1, v3_z = 0\<rparr>\<rparr>]
          initial_interaction)
       \<lparr>voxels = [\<lparr>vox_x = 0, vox_y = 0, vox_z = 0, vox_color = Some ''#00ffff'',
                   vox_id = None\<rparr>],
        selectedColor = ''#00ffff''\<rparr> =
      Inr \<lparr>voxels = [\<lparr>vox_x = 0, vox_y = 0, vox_z = 0, vox_color = Some ''#00ffff'',
                       vox_id = None\<rparr>],
           selectedColor = ''#00ffff''\<rparr>"
  using no_identity_no_remove
    [where data = "Some [\<lparr>row_x = 1, row_y = 2, row_z = 3, row_color = Some ''#ccff00''\<rparr>]"
       and s = "\<lparr>voxels = [\<lparr>vox_x = 0, vox_y = 0, vox_z = 0, vox_color = Some ''#00ffff'',
                              vox_id = None\<rparr>],
                   selectedColor = ''#00ffff''\<rparr>"
       and a = 0 and b = 0 and c = 0
       and w = "\<lparr>vox_x = 1, vox_y = 1, vox_z = 1, vox_color = Some ''#ff003c'',
                  vox_id = Some (IdNum 7)\<rparr>"
       and evs = "[Added 0 0 0,
                   Inserted \<lparr>vox_x = 1, vox_y = 1, vox_z = 1, vox_color = Some ''#ff003c'',
                             vox_id = Some (IdNum 7)\<rparr>]"
       and i = 0
       and vs = "[\<lparr>vox_x = 0, vox_y = 0, vox_z = 0, vox_color = Some ''#00ffff'',
                   vox_id = None\<rparr>]"
       and h = "\<lparr>object_name = ''voxels'', instanceId = Some 0,
                  point = \<lparr>v3_x = 0, v3_y = 1 / 2, v3_z = 0\<rparr>,
                  face_normal = \<lparr>v3_x = 0, v3_y = 1, v3_z = 0\<rparr>\<rparr>"
       and hs = "[]" and ia = initial_interaction
       and e = "\<lparr>button = 0, altKey = True\<rparr>"]
  by (simp add: initializeVoxels_def voxel_of_row_def initial_store_def addVoxel_begin_def
      onInsert_def same_cell_def add_intent_def Let_def)

end
